theory Spec2Isabelle
  imports Complex_Main "HOL-Library.Sublist" "HOL-Library.Multiset" "HOL-Library.AList"
begin

section \<open>JavaScript strings and values\<close>

text \<open>
  A JavaScript string is a sequence of UTF-16 code units; \<open>length\<close>, \<open>trim\<close>, \<open>includes\<close>
  and the regular expressions of \<^verbatim>\<open>server.js\<close> all work on code units. A code unit is
  modelled as a natural number (below 65536 in every real string), and \<open>js\<close> embeds an
  ASCII literal of the source.
\<close>

type_synonym jschar = nat
type_synonym jsstring = "jschar list"

definition js :: "string \<Rightarrow> jsstring" where
  "js s = map of_char s"

text \<open>
  The class \<^verbatim>\<open>\s\<close> of a regular expression and the characters removed by
  \<^verbatim>\<open>String.prototype.trim\<close> are the same set: ECMAScript's WhiteSpace and LineTerminator.
\<close>

definition is_space :: "jschar \<Rightarrow> bool" where
  "is_space c \<longleftrightarrow>
     c = 9 \<or> c = 10 \<or> c = 11 \<or> c = 12 \<or> c = 13 \<or> c = 32 \<or> c = 160 \<or> c = 5760
     \<or> (8192 \<le> c \<and> c \<le> 8202) \<or> c = 8232 \<or> c = 8233 \<or> c = 8239 \<or> c = 8287
     \<or> c = 12288 \<or> c = 65279"

definition trim :: "jsstring \<Rightarrow> jsstring" where
  "trim s = rev (dropWhile is_space (rev (dropWhile is_space s)))"

text \<open>
  Matching under the flag \<^verbatim>\<open>i\<close> (without \<^verbatim>\<open>u\<close>) compares the upper-case forms of two
  code units, and never lets a code unit from 128 on match an ASCII one; every letter of
  the patterns of \<^verbatim>\<open>server.js\<close> is ASCII, so folding \<^verbatim>\<open>a\<close>..\<^verbatim>\<open>z\<close> is exact.
\<close>

definition upper :: "jschar \<Rightarrow> jschar" where
  "upper c = (if 97 \<le> c \<and> c \<le> 122 then c - 32 else c)"

definition ci_prefix :: "jsstring \<Rightarrow> jsstring \<Rightarrow> bool" where
  "ci_prefix p s \<longleftrightarrow> prefix (map upper p) (map upper s)"

text \<open>\<^verbatim>\<open>s.includes(p)\<close>, and an unanchored regular expression made of the literal \<open>p\<close>.\<close>

fun str_includes :: "jsstring \<Rightarrow> jsstring \<Rightarrow> bool" where
  "str_includes [] p = (p = [])"
| "str_includes (c # cs) p = (prefix p (c # cs) \<or> str_includes cs p)"

text \<open>
  The values that \<^verbatim>\<open>JSON.parse\<close> and \<^verbatim>\<open>express.json()\<close> hand to a handler, with
  \<^verbatim>\<open>undefined\<close> for a property that is not there. An object is the list of its own
  properties.
\<close>

datatype jsval =
    JUndefined
  | JNull
  | JBool bool
  | JNum rat
  | JStr jsstring
  | JArr "jsval list"
  | JObj "(jsstring \<times> jsval) list"

fun truthy :: "jsval \<Rightarrow> bool" where
  "truthy JUndefined = False"
| "truthy JNull = False"
| "truthy (JBool b) = b"
| "truthy (JNum n) = (n \<noteq> 0)"
| "truthy (JStr s) = (s \<noteq> [])"
| "truthy (JArr xs) = True"
| "truthy (JObj kvs) = True"

section \<open>Prompt validation (\<^verbatim>\<open>validateAndSanitizePrompt\<close>, server.js 30--96)\<close>

datatype validation =
    Invalid jsstring
  | Valid jsstring

definition MAX_PROMPT_LENGTH :: nat where
  "MAX_PROMPT_LENGTH = 5000"

definition MIN_PROMPT_LENGTH :: nat where
  "MIN_PROMPT_LENGTH = 3"

text \<open>
  The character class of \<^verbatim>\<open>SAFE_PROMPT_REGEX\<close>:
  \<^verbatim>\<open>[a-zA-Z0-9\s.,!?;:()\-'"@#%&*+=\[\]{}\/\\`\n\r_<>]\<close>.
\<close>

definition safe_char :: "jschar \<Rightarrow> bool" where
  "safe_char c \<longleftrightarrow>
     (97 \<le> c \<and> c \<le> 122) \<or> (65 \<le> c \<and> c \<le> 90) \<or> (48 \<le> c \<and> c \<le> 57) \<or> is_space c
     \<or> c \<in> set (js ''.,!?;:()-'' @ [39, 34] @ js ''@#%&*+=[]{}/'' @ [92, 96, 10, 13]
                  @ js ''_<>'')"

definition SAFE_PROMPT_REGEX :: "jsstring \<Rightarrow> bool" where
  "SAFE_PROMPT_REGEX s \<longleftrightarrow> s \<noteq> [] \<and> (\<forall>c \<in> set s. safe_char c)"

text \<open>
  A dangerous pattern is a literal, then \<^verbatim>\<open>\s*\<close>, then a word matched without regard to
  case, searched anywhere in the prompt. The word starts with a letter, so \<^verbatim>\<open>\s*\<close> takes
  the whole run of white space after the literal.
\<close>

fun lit_ws_word :: "jsstring \<Rightarrow> jsstring \<Rightarrow> jsstring \<Rightarrow> bool" where
  "lit_ws_word l w [] = (l = [] \<and> w = [])"
| "lit_ws_word l w (c # cs) =
     ((prefix l (c # cs) \<and> ci_prefix w (dropWhile is_space (drop (length l) (c # cs))))
      \<or> lit_ws_word l w cs)"

definition DANGEROUS_PATTERNS :: "(jsstring \<Rightarrow> bool) list" where
  "DANGEROUS_PATTERNS =
     [ lit_ws_word (js ''$('') [],
       lit_ws_word (js ''<'') (js ''script''),
       lit_ws_word (js ''|'') (js ''python''),
       lit_ws_word (js '';'') (js ''python''),
       lit_ws_word (js ''&&'') (js ''python''),
       lit_ws_word (js ''||'') (js ''python'') ]"

definition is_control :: "jschar \<Rightarrow> bool" where
  "is_control c \<longleftrightarrow> c \<le> 31 \<or> c = 127"

definition sanitize :: "jsstring \<Rightarrow> jsstring" where
  "sanitize prompt =
     trim (filter (\<lambda>c. \<not> is_control c) (filter (\<lambda>c. c \<noteq> 60 \<and> c \<noteq> 62) prompt))"

fun validateAndSanitizePrompt :: "jsval \<Rightarrow> validation" where
  "validateAndSanitizePrompt (JStr prompt) =
     (if prompt = [] then Invalid (js ''Prompt must be a non-empty string'')
      else if length prompt > MAX_PROMPT_LENGTH
        then Invalid (js ''Prompt exceeds maximum length of 5000 characters'')
      else if length (trim prompt) < MIN_PROMPT_LENGTH
        then Invalid (js ''Prompt must be at least 3 characters'')
      else if \<not> SAFE_PROMPT_REGEX prompt
        then Invalid (js ''Prompt contains invalid characters'')
      else if list_ex (\<lambda>pattern. pattern prompt) DANGEROUS_PATTERNS
        then Invalid (js ''Prompt contains potentially dangerous patterns'')
      else Valid (sanitize prompt))"
| "validateAndSanitizePrompt other = Invalid (js ''Prompt must be a non-empty string'')"

text \<open>
  The five handlers that start the analysis script (server.js 1041--1065, 1197--1220,
  1352--1375, 1504--1567, 1834--1883) begin alike: the prompt of the request body is
  validated, a failure is answered with HTTP 400 and the error text, and otherwise the
  script is spawned with an argument vector built from \<^verbatim>\<open>validation.sanitized\<close>.
\<close>

definition spawn_argv :: "jsval \<Rightarrow> jsstring + jsstring list" where
  "spawn_argv prompt =
     (case validateAndSanitizePrompt prompt of
        Invalid e \<Rightarrow> Inl e
      | Valid sanitized \<Rightarrow> Inr [js ''test_agentic_analysis.py'', sanitized])"

section \<open>Event-type classifier (\<^verbatim>\<open>generateEventTypeStatsData\<close>, server.js 662--721)\<close>

text \<open>
  Every regular expression of the classifier has one of two shapes. \<^verbatim>\<open>/.*S.*/\<close> has no
  anchor, so it matches exactly the strings that contain \<open>S\<close>: it is written
  \<open>Anywhere S\<close>. \<^verbatim>\<open>/.*S$/\<close> and \<^verbatim>\<open>/S$/\<close> (no flag \<^verbatim>\<open>m\<close>) match exactly the strings that end
  with \<open>S\<close>: they are written \<open>AtEnd S\<close>. None carries the flag \<^verbatim>\<open>g\<close>, so
  \<^verbatim>\<open>pattern.test\<close> keeps no state.
\<close>

datatype pattern =
    Anywhere jsstring
  | AtEnd jsstring

fun test :: "pattern \<Rightarrow> jsstring \<Rightarrow> bool" where
  "test (Anywhere p) s = str_includes s p"
| "test (AtEnd p) s = suffix p s"

datatype bucket =
    configurationAlerts
  | costImpactEvents
  | maintenanceUpdates
  | migrationRequirements
  | operationalNotifications
  | securityCompliance

fun patterns :: "bucket \<Rightarrow> pattern list" where
  "patterns configurationAlerts =
     [Anywhere (js ''_HIGH_RISK_CONFIG''), AtEnd (js ''_PERSISTENCE_EXPIRING''),
      AtEnd (js ''_RENEWAL_STATE_CHANGE''), AtEnd (js ''_CUSTOMER_ENGAGEMENT''),
      Anywhere (js ''_RUNAWAY_TERMINATION'')]"
| "patterns costImpactEvents =
     [AtEnd (js ''AWS_BILLING_NOTIFICATION''), Anywhere (js ''_ODCR_''),
      Anywhere (js ''_SUBSCRIPTION_RENEWAL''), Anywhere (js ''_CAPACITY_''),
      Anywhere (js ''_UNDERUTILIZATION'')]"
| "patterns maintenanceUpdates =
     [AtEnd (js ''_MAINTENANCE_SCHEDULED''), AtEnd (js ''_MAINTENANCE_COMPLETE''),
      AtEnd (js ''_MAINTENANCE_EXTENSION''), AtEnd (js ''_UPDATE_AVAILABLE''),
      AtEnd (js ''_UPDATE_COMPLETED''), AtEnd (js ''_AUTO_UPGRADE_NOTIFICATION''),
      AtEnd (js ''_UPCOMING_MAINTENANCE'')]"
| "patterns migrationRequirements =
     [AtEnd (js ''_PLANNED_LIFECYCLE_EVENT''),
      AtEnd (js ''_PERSISTENT_INSTANCE_RETIREMENT_SCHEDULED''),
      AtEnd (js ''_TASK_PATCHING_RETIREMENT''), AtEnd (js ''_VM_DEPRECATED'')]"
| "patterns operationalNotifications =
     [AtEnd (js ''_OPERATIONAL_NOTIFICATION''), AtEnd (js ''_OPERATIONAL_ISSUE''),
      AtEnd (js ''_SERVICE_ISSUE''), AtEnd (js ''_CLUSTER_HEALTH_ISSUES''),
      AtEnd (js ''_POD_EVICTIONS''), AtEnd (js ''_REDUNDANCY_LOSS''),
      AtEnd (js ''_TUNNEL_NOTIFICATION''), AtEnd (js ''_EXPERIMENT_EVENT'')]"
| "patterns securityCompliance =
     [AtEnd (js ''_SECURITY_NOTIFICATION''), AtEnd (js ''_SECURITY_PATCHING_EVENT'')]"

text \<open>
  An item of the scan, projected on \<^verbatim>\<open>event_type, service\<close>: both are string attributes
  of the event table, and either may be missing.
\<close>

record event =
  event_type :: "jsstring option"
  service :: "jsstring option"

text \<open>\<^verbatim>\<open>x || ''\<close> for a string attribute that may be missing.\<close>

fun or_empty :: "jsstring option \<Rightarrow> jsstring" where
  "or_empty None = []"
| "or_empty (Some s) = s"

text \<open>The callback of \<^verbatim>\<open>allEvents.filter\<close>, for the pattern list of one bucket.\<close>

definition matches_any :: "pattern list \<Rightarrow> event \<Rightarrow> bool" where
  "matches_any ps ev =
     (let eventType = or_empty (event_type ev)
      in list_ex (\<lambda>pattern. test pattern eventType) ps)"

definition in_bucket :: "bucket \<Rightarrow> event \<Rightarrow> bool" where
  "in_bucket category ev = matches_any (patterns category) ev"

record bucket_stats =
  eventCount :: nat
  serviceCount :: nat

text \<open>
  \<^verbatim>\<open>services\<close> is a \<^verbatim>\<open>Set\<close> that receives every truthy \<^verbatim>\<open>event.service\<close>; its size is the
  number of distinct services.
\<close>

definition stats_for :: "pattern list \<Rightarrow> event list \<Rightarrow> bucket_stats" where
  "stats_for ps allEvents =
     (let categoryEvents = filter (matches_any ps) allEvents;
          services = remdups (filter (\<lambda>s. s \<noteq> []) (map (\<lambda>ev. or_empty (service ev)) categoryEvents))
      in \<lparr> eventCount = length categoryEvents, serviceCount = length services \<rparr>)"

definition generateEventTypeStatsData :: "event list \<Rightarrow> bucket \<Rightarrow> bucket_stats" where
  "generateEventTypeStatsData allEvents = (\<lambda>category. stats_for (patterns category) allEvents)"

section \<open>Paginated scan (\<^verbatim>\<open>scanAllPages\<close>, server.js 348--365, 2061--2078 and four more copies)\<close>

text \<open>
  One page of \<^verbatim>\<open>dynamodb.scan\<close>: \<^verbatim>\<open>Items\<close> may be missing, and \<^verbatim>\<open>LastEvaluatedKey\<close> is
  an object (always truthy) or missing. The collaborator is a function of its own state
  and of \<^verbatim>\<open>ExclusiveStartKey\<close> (set exactly when the previous page carried a key); the
  other scan parameters do not change during the loop. It answers with an error (the
  rejected promise, which \<^verbatim>\<open>scanAllPages\<close> lets through) or with a page and its next
  state.
\<close>

record ('k, 'i) scan_result =
  Items :: "'i list option"
  LastEvaluatedKey :: "'k option"

type_synonym ('db, 'k, 'i, 'e) scanner =
  "'db \<Rightarrow> 'k option \<Rightarrow> 'e + (('k, 'i) scan_result \<times> 'db)"

fun or_nil :: "'i list option \<Rightarrow> 'i list" where
  "or_nil None = []"
| "or_nil (Some xs) = xs"

text \<open>
  The \<^verbatim>\<open>do \<dots> while (lastEvaluatedKey)\<close> loop. Nothing bounds the number of pages, so the
  loop is a partial function: \<open>None\<close> stands for a loop that never returns.
\<close>

partial_function (option) scan_loop ::
  "('db, 'k, 'i, 'e) scanner \<Rightarrow> 'db \<Rightarrow> 'i list \<Rightarrow> 'k option \<Rightarrow> ('e + ('i list \<times> 'db)) option"
where
  "scan_loop scan db allItems lastEvaluatedKey =
     (case scan db lastEvaluatedKey of
        Inl err \<Rightarrow> Some (Inl err)
      | Inr (result, db') \<Rightarrow>
          (let pageItems = or_nil (Items result);
               allItems' = allItems @ pageItems
           in case LastEvaluatedKey result of
                None \<Rightarrow> Some (Inr (allItems', db'))
              | Some k \<Rightarrow> scan_loop scan db' allItems' (Some k)))"

definition scanAllPages ::
  "('db, 'k, 'i, 'e) scanner \<Rightarrow> 'db \<Rightarrow> ('e + ('i list \<times> 'db)) option" where
  "scanAllPages scan db = scan_loop scan db [] None"

text \<open>
  \<open>serves scan db k pages\<close>: asked with key \<open>k\<close> in state \<open>db\<close>, the collaborator answers
  with the pages of the list one after the other, each asked with the key of the page
  before it; every page but the last carries a key.
\<close>

fun serves ::
  "('db, 'k, 'i, 'e) scanner \<Rightarrow> 'db \<Rightarrow> 'k option \<Rightarrow> ('k, 'i) scan_result list \<Rightarrow> bool" where
  "serves scan db k [] = False"
| "serves scan db k (p # ps) =
     (case scan db k of
        Inl err \<Rightarrow> False
      | Inr (result, db') \<Rightarrow>
          result = p \<and>
          (if ps = [] then LastEvaluatedKey p = None
           else LastEvaluatedKey p \<noteq> None \<and> serves scan db' (LastEvaluatedKey p) ps))"

text \<open>A collaborator that hands out the pages of a fixed list, whatever the key.\<close>

fun paged :: "(('k, 'i) scan_result list, 'k, 'i, unit) scanner" where
  "paged [] k = Inl ()"
| "paged (p # ps) k = Inr (p, ps)"

section \<open>Searching strings\<close>

text \<open>
  \<open>find_lit ci p s\<close> is the leftmost occurrence of the literal \<open>p\<close> in \<open>s\<close>, matched
  without regard to case when \<open>ci\<close> holds: the text before it, the text matched (as it
  stands in \<open>s\<close>) and the text after it.
\<close>

definition starts :: "bool \<Rightarrow> jsstring \<Rightarrow> jsstring \<Rightarrow> bool" where
  "starts ci p s = (if ci then ci_prefix p s else prefix p s)"

fun find_lit :: "bool \<Rightarrow> jsstring \<Rightarrow> jsstring \<Rightarrow> (jsstring \<times> jsstring \<times> jsstring) option" where
  "find_lit ci p [] = (if p = [] then Some ([], [], []) else None)"
| "find_lit ci p (c # cs) =
     (if starts ci p (c # cs) then Some ([], take (length p) (c # cs), drop (length p) (c # cs))
      else map_option (\<lambda>(pre, m, after). (c # pre, m, after)) (find_lit ci p cs))"






section \<open>Extraction of the HTML fragment in the refresh handlers (server.js 1093--1104)\<close>

text \<open>
  \<^verbatim>\<open>output.match(/```html\s*([\s\S]*?)\s*```/)\<close>, group 1. The match starts at the leftmost
  \<^verbatim>\<open>```html\<close>; \<^verbatim>\<open>\s*\<close> then takes the whole run of white space (a back quote is no white
  space, so giving some back cannot help); the lazy group grows one code unit at a time
  until what follows is white space and the closing fence. When no closing fence follows
  the first opening fence, none follows a later one either (a later opening fence would
  itself close the first), so the search fails.
\<close>

fun lazy_to_fence :: "jsstring \<Rightarrow> jsstring option" where
  "lazy_to_fence [] = None"
| "lazy_to_fence (c # cs) =
     (if prefix (js ''```'') (dropWhile is_space (c # cs)) then Some []
      else map_option ((#) c) (lazy_to_fence cs))"

definition codeBlockMatch :: "jsstring \<Rightarrow> jsstring option" where
  "codeBlockMatch out =
     (case find_lit False (js ''```html'') out of
        None \<Rightarrow> None
      | Some (pre, m, after) \<Rightarrow> lazy_to_fence (dropWhile is_space after))"

text \<open>
  \<^verbatim>\<open>output.match(/<html[\s\S]*?<\/html>/i)\<close>, the whole match: from the leftmost
  \<^verbatim>\<open><html\<close> to the end of the first \<^verbatim>\<open></html>\<close> after it.
\<close>

definition htmlMatch :: "jsstring \<Rightarrow> jsstring option" where
  "htmlMatch out =
     (case find_lit True (js ''<html'') out of
        None \<Rightarrow> None
      | Some (pre, m, after) \<Rightarrow>
          (case find_lit True (js ''</html>'') after of
             None \<Rightarrow> None
           | Some (mid, m', rest) \<Rightarrow> Some (m @ mid @ m')))"

definition extract_refresh :: "jsstring \<Rightarrow> jsstring" where
  "extract_refresh out =
     (case codeBlockMatch out of
        Some group1 \<Rightarrow> trim group1
      | None \<Rightarrow> (case htmlMatch out of Some m \<Rightarrow> m | None \<Rightarrow> out))"

section \<open>The cache of critical-events analyses (server.js 983--1011, 1106--1135 and their copies)\<close>

text \<open>
  One cache file per kind of analysis. A file that \<^verbatim>\<open>JSON.parse\<close> refuses (or that holds
  \<^verbatim>\<open>null\<close>, whose properties cannot be read) is \<open>Corrupt\<close>. Of an entry, \<open>timestamp\<close> is the
  instant that \<^verbatim>\<open>new Date(cacheData.timestamp)\<close> denotes, in milliseconds, with \<open>None\<close> for
  an invalid date; \<open>ttl_hours\<close> is a number or is missing. Numbers are exact rationals:
  the rounding of the one division is not modelled.
\<close>

datatype kind = Next30 | Days60 | PastDue

fun cacheFile :: "kind \<Rightarrow> jsstring" where
  "cacheFile Next30 = js ''../output/critical-events-cache.json''"
| "cacheFile Days60 = js ''../output/critical-events-cache-60.json''"
| "cacheFile PastDue = js ''../output/critical-events-pastdue.json''"

record cache_data =
  timestamp :: "int option"
  ttl_hours :: "rat option"
  analysis :: "jsstring option"
  prompt :: "jsstring option"

datatype cache_file = Corrupt | Entry cache_data

type_synonym fs = "jsstring \<rightharpoonup> cache_file"

text \<open>\<^verbatim>\<open>cacheData.ttl_hours || 1\<close>: a missing value and the number 0 are both falsy.\<close>

fun or_one :: "rat option \<Rightarrow> rat" where
  "or_one None = 1"
| "or_one (Some h) = (if h = 0 then 1 else h)"



section \<open>The refresh handlers (server.js 1059--1152, 1214--1307, 1369--1462)\<close>

text \<open>
  After the script is spawned, the handler is driven by the events of the process and by
  two timers of 60 seconds. \<open>TimeoutId\<close> is the first timer (cleared by the close
  handler), \<open>Timer2\<close> the second (never cleared). The state holds the variables of the
  closure (\<open>outputText\<close> and \<open>errorText\<close> are its \<^verbatim>\<open>output\<close> and \<^verbatim>\<open>error\<close>), the signals sent to
  the process, the HTTP responses sent and the files. The refresh handlers register no
  listener for the event \<^verbatim>\<open>error\<close> of the process, so \<open>ProcError\<close> changes nothing in them.
\<close>

datatype proc_event =
    StdoutData jsstring
  | StderrData jsstring
  | Close "int option"
  | ProcError jsstring
  | TimeoutId
  | Timer2

datatype signal = SIGTERM

datatype http_body =
    Refreshed jsstring int rat
  | AnalysisTimeout
  | AgentAnalysisFailed jsstring
  | AgentAnalysisTimeout

record refresh_state =
  responseSent :: bool
  timeoutCleared :: bool
  outputText :: jsstring
  errorText :: jsstring
  signals :: "signal list"
  responses :: "(nat \<times> http_body) list"
  files :: fs

definition refresh_start :: "fs \<Rightarrow> refresh_state" where
  "refresh_start fs0 =
     \<lparr> responseSent = False, timeoutCleared = False, outputText = [], errorText = [],
       signals = [], responses = [], files = fs0 \<rparr>"

text \<open>The part of the close handler that runs for exit code 0.\<close>

definition existingTtl :: "fs \<Rightarrow> kind \<Rightarrow> rat" where
  "existingTtl fs0 k =
     (case fs0 (cacheFile k) of
        None \<Rightarrow> 1
      | Some Corrupt \<Rightarrow> 1
      | Some (Entry existingCache) \<Rightarrow> or_one (ttl_hours existingCache))"

definition refresh_success :: "kind \<Rightarrow> jsstring \<Rightarrow> int \<Rightarrow> refresh_state \<Rightarrow> refresh_state" where
  "refresh_success k sanitized now st =
     (let htmlContent = extract_refresh (outputText st);
          cacheData = \<lparr> timestamp = Some now, ttl_hours = Some (existingTtl (files st) k),
                        analysis = Some htmlContent, prompt = Some sanitized \<rparr>
      in st \<lparr> files := (files st)(cacheFile k \<mapsto> Entry cacheData),
              responses := responses st @ [(200, Refreshed htmlContent now (existingTtl (files st) k))] \<rparr>)"

fun refresh_step :: "kind \<Rightarrow> jsstring \<Rightarrow> int \<Rightarrow> proc_event \<Rightarrow> refresh_state \<Rightarrow> refresh_state" where
  "refresh_step k sanitized now TimeoutId st =
     (if timeoutCleared st then st
      else if \<not> responseSent st
        then st \<lparr> signals := signals st @ [SIGTERM], responseSent := True,
                  responses := responses st @ [(504, AnalysisTimeout)] \<rparr>
      else st)"
| "refresh_step k sanitized now (StdoutData d) st = st \<lparr> outputText := outputText st @ d \<rparr>"
| "refresh_step k sanitized now (StderrData d) st = st \<lparr> errorText := errorText st @ d \<rparr>"
| "refresh_step k sanitized now (Close code) st =
     (let st1 = st \<lparr> timeoutCleared := True \<rparr> in
      if \<not> responseSent st1
      then (let st2 = st1 \<lparr> responseSent := True \<rparr> in
            if code = Some 0 then refresh_success k sanitized now st2
            else st2 \<lparr> responses := responses st2 @ [(500, AgentAnalysisFailed (errorText st2))] \<rparr>)
      else st1)"
| "refresh_step k sanitized now Timer2 st =
     (if \<not> responseSent st
      then st \<lparr> responseSent := True, signals := signals st @ [SIGTERM],
                responses := responses st @ [(408, AgentAnalysisTimeout)] \<rparr>
      else st)"
| "refresh_step k sanitized now (ProcError e) st = st"


section \<open>Extraction of the response in the streaming handler (server.js 1630--1716)\<close>

















section \<open>The streaming handler (server.js 1569--1814)\<close>















section \<open>The drill-down query builder (server.js 1934--2080)\<close>

text \<open>
  The query parameter \<^verbatim>\<open>filters\<close> is missing (or empty), or it does not decode and parse
  as JSON, or it parses to a value.
\<close>

datatype filters_query =
    NoFilters
  | Malformed
  | Parsed jsval

text \<open>
  \<^verbatim>\<open>parsedFilters[key]\<close> for a value that is neither \<^verbatim>\<open>null\<close> nor \<^verbatim>\<open>undefined\<close>: an own
  property of an object, and \<^verbatim>\<open>undefined\<close> otherwise (none of the recognised keys is a
  property of a string, a number, a boolean or an array).
\<close>

fun get_prop :: "jsval \<Rightarrow> jsstring \<Rightarrow> jsval" where
  "get_prop (JObj kvs) key = (case map_of kvs key of None \<Rightarrow> JUndefined | Some v \<Rightarrow> v)"
| "get_prop other key = JUndefined"

definition validFilters :: "jsstring list" where
  "validFilters =
     [js ''account'', js ''region'', js ''eventCategory'', js ''service'', js ''status_code'',
      js ''event_type'', js ''start_time'', js ''arn'']"

definition hasValidFilter :: "jsval \<Rightarrow> bool" where
  "hasValidFilter parsedFilters = list_ex (\<lambda>key. truthy (get_prop parsedFilters key)) validFilters"

text \<open>The guard \<^verbatim>\<open>v && v !== 'undefined' && v !== ''\<close> of the plain filters.\<close>

definition usable :: "jsval \<Rightarrow> bool" where
  "usable v \<longleftrightarrow> truthy v \<and> v \<noteq> JStr (js ''undefined'') \<and> v \<noteq> JStr []"

text \<open>
  The three accumulators of the handler. An object is the list of its properties in
  insertion order; an assignment to a key that is there replaces its value in place.
\<close>

record builder =
  filterExpressions :: "jsstring list"
  expressionAttributeValues :: "(jsstring \<times> jsval) list"
  expressionAttributeNames :: "(jsstring \<times> jsstring) list"

definition push_clause :: "jsstring \<Rightarrow> jsstring \<Rightarrow> jsval \<Rightarrow> builder \<Rightarrow> builder" where
  "push_clause expr placeholder v b =
     b \<lparr> filterExpressions := filterExpressions b @ [expr],
         expressionAttributeValues := AList.update placeholder v (expressionAttributeValues b) \<rparr>"

definition set_name :: "jsstring \<Rightarrow> jsstring \<Rightarrow> builder \<Rightarrow> builder" where
  "set_name alias attr b =
     b \<lparr> expressionAttributeNames := AList.update alias attr (expressionAttributeNames b) \<rparr>"

text \<open>
  \<^verbatim>\<open>mappedCategory.includes('_') && mappedCategory.length > 20\<close>. A string and an array have
  \<^verbatim>\<open>includes\<close> and \<^verbatim>\<open>length\<close>; on any other truthy value the call raises a TypeError
  (\<open>None\<close>), which the handler answers with HTTP 500.
\<close>

fun looks_like_event_type :: "jsval \<Rightarrow> bool option" where
  "looks_like_event_type (JStr s) = Some (95 \<in> set s \<and> length s > 20)"
| "looks_like_event_type (JArr xs) = Some (JStr [95] \<in> set xs \<and> length xs > 20)"
| "looks_like_event_type other = None"

text \<open>
  The conversion of a value to a string inside a template literal. The decimal form of a
  number is ECMAScript's \<^verbatim>\<open>Number::toString\<close>, taken as the parameter \<open>numStr\<close>; an array is
  the \<^verbatim>\<open>join(',')\<close> of its elements, with nothing for \<^verbatim>\<open>null\<close> and \<^verbatim>\<open>undefined\<close>.
\<close>

fun join_comma :: "jsstring list \<Rightarrow> jsstring" where
  "join_comma [] = []"
| "join_comma [e] = e"
| "join_comma (e # es) = e @ 44 # join_comma es"

fun ToString :: "(rat \<Rightarrow> jsstring) \<Rightarrow> jsval \<Rightarrow> jsstring" where
  "ToString numStr JUndefined = js ''undefined''"
| "ToString numStr JNull = js ''null''"
| "ToString numStr (JBool b) = (if b then js ''true'' else js ''false'')"
| "ToString numStr (JNum n) = numStr n"
| "ToString numStr (JStr s) = s"
| "ToString numStr (JArr xs) =
     join_comma (map (\<lambda>x. if x = JNull \<or> x = JUndefined then [] else ToString numStr x) xs)"
| "ToString numStr (JObj kvs) = js ''[object Object]''"

text \<open>The block for \<^verbatim>\<open>eventCategory\<close>, lines 1996--2020.\<close>

definition eventCategory_block :: "(rat \<Rightarrow> jsstring) \<Rightarrow> jsval \<Rightarrow> builder \<Rightarrow> builder option" where
  "eventCategory_block numStr parsedFilters b =
     (if truthy (get_prop parsedFilters (js ''eventCategory''))
      then (let mappedCategory =
                  (if get_prop parsedFilters (js ''eventCategory'') = JStr (js ''plannedChange'')
                   then JStr (js ''scheduledChange'')
                   else get_prop parsedFilters (js ''eventCategory''))
            in case looks_like_event_type mappedCategory of
                 None \<Rightarrow> None
               | Some True \<Rightarrow>
                   Some (push_clause (js ''event_type = :event_type'') (js '':event_type'') mappedCategory b)
               | Some False \<Rightarrow>
                   if mappedCategory = JStr (js ''PLANNED_LIFECYCLE_EVENT'')
                   then (if truthy (get_prop parsedFilters (js ''service''))
                         then (let fullEventType =
                                     js ''AWS_'' @ ToString numStr (get_prop parsedFilters (js ''service''))
                                     @ js ''_PLANNED_LIFECYCLE_EVENT''
                               in Some (push_clause (js ''event_type = :event_type'') (js '':event_type'')
                                          (JStr fullEventType) b))
                         else Some (push_clause (js ''contains(event_type, :event_type_pattern)'')
                                      (js '':event_type_pattern'') (JStr (js ''PLANNED_LIFECYCLE_EVENT'')) b))
                   else Some (push_clause (js ''eventCategory = :eventCategory'') (js '':eventCategory'')
                                mappedCategory b))
      else Some b)"

text \<open>A plain filter with an alias for the attribute name, and one without.\<close>

definition aliased_filter :: "jsstring \<Rightarrow> jsval \<Rightarrow> builder \<Rightarrow> builder" where
  "aliased_filter key parsedFilters b =
     (if usable (get_prop parsedFilters key)
      then set_name (35 # key) key
             (push_clause (35 # key @ js '' = :'' @ key) (58 # key) (get_prop parsedFilters key) b)
      else b)"

definition direct_filter :: "jsstring \<Rightarrow> jsval \<Rightarrow> builder \<Rightarrow> builder" where
  "direct_filter key parsedFilters b =
     (if usable (get_prop parsedFilters key)
      then push_clause (key @ js '' = :'' @ key) (58 # key) (get_prop parsedFilters key) b
      else b)"

definition build_filters :: "(rat \<Rightarrow> jsstring) \<Rightarrow> jsval \<Rightarrow> builder option" where
  "build_filters numStr parsedFilters =
     (let b0 = \<lparr> filterExpressions = [], expressionAttributeValues = [], expressionAttributeNames = [] \<rparr>;
          b1 = aliased_filter (js ''account'') parsedFilters b0;
          b2 = aliased_filter (js ''region'') parsedFilters b1
      in case eventCategory_block numStr parsedFilters b2 of
           None \<Rightarrow> None
         | Some b3 \<Rightarrow>
             Some (direct_filter (js ''arn'') parsedFilters
                    (direct_filter (js ''start_time'') parsedFilters
                      (direct_filter (js ''event_type'') parsedFilters
                        (direct_filter (js ''status_code'') parsedFilters
                          (aliased_filter (js ''service'') parsedFilters b3))))))"

record scan_params =
  TableName :: jsstring
  FilterExpression :: "jsstring option"
  ExpressionAttributeValues :: "(jsstring \<times> jsval) list option"
  ExpressionAttributeNames :: "(jsstring \<times> jsstring) list option"

text \<open>\<^verbatim>\<open>filterExpressions.join(' AND ')\<close>.\<close>

fun join_and :: "jsstring list \<Rightarrow> jsstring" where
  "join_and [] = []"
| "join_and [e] = e"
| "join_and (e # es) = e @ js '' AND '' @ join_and es"

definition to_scan_params :: "builder \<Rightarrow> scan_params" where
  "to_scan_params b =
     (if length (filterExpressions b) > 0
      then \<lparr> TableName = js ''chaplin-health-events'',
             FilterExpression = Some (join_and (filterExpressions b)),
             ExpressionAttributeValues = Some (expressionAttributeValues b),
             ExpressionAttributeNames =
               (if length (expressionAttributeNames b) > 0 then Some (expressionAttributeNames b)
                else None) \<rparr>
      else \<lparr> TableName = js ''chaplin-health-events'', FilterExpression = None,
             ExpressionAttributeValues = None, ExpressionAttributeNames = None \<rparr>)"

text \<open>
  The handler up to the call of \<^verbatim>\<open>scanAllPages(scanParams)\<close>: it answers 400 or 500, or it
  goes on to scan with the parameters it has built. Reading a property of \<^verbatim>\<open>null\<close> raises
  a TypeError, caught by the handler's outer \<^verbatim>\<open>catch\<close>.
\<close>

datatype drill_down =
    BadRequest jsstring
  | ServerError
  | RunScan scan_params

definition drill_down_details :: "(rat \<Rightarrow> jsstring) \<Rightarrow> filters_query \<Rightarrow> drill_down" where
  "drill_down_details numStr q =
     (case q of
        NoFilters \<Rightarrow> BadRequest (js ''Filters parameter is required'')
      | Malformed \<Rightarrow> BadRequest (js ''Invalid filters format'')
      | Parsed parsedFilters \<Rightarrow>
          if parsedFilters = JNull \<or> parsedFilters = JUndefined then ServerError
          else if \<not> hasValidFilter parsedFilters then BadRequest (js ''No valid filters provided'')
          else (case build_filters numStr parsedFilters of
                  None \<Rightarrow> ServerError
                | Some b \<Rightarrow> RunScan (to_scan_params b)))"

section \<open>The routes (server.js 169--2224)\<close>

text \<open>
  Every route of \<^verbatim>\<open>server.js\<close> in the order of its registration: the method, the path as
  its segments (\<open>Param\<close> is a segment like \<^verbatim>\<open>:categoryId\<close>), and whether \<^verbatim>\<open>requireAuth\<close>
  stands before the handler. \<open>AnyPath\<close> is \<^verbatim>\<open>'*'\<close>. The static middleware for
  \<^verbatim>\<open>/static\<close> is a route for every path below it.
\<close>

datatype http_method = GET | POST

datatype seg = Lit jsstring | Param

datatype path_pattern =
    Exact "seg list"
  | Below "jsstring list"
  | AnyPath

record route =
  r_method :: http_method
  r_path :: path_pattern
  r_requireAuth :: bool

definition api :: "http_method \<Rightarrow> bool \<Rightarrow> seg list \<Rightarrow> route" where
  "api m auth segs = \<lparr> r_method = m, r_path = Exact (Lit (js ''api'') # segs), r_requireAuth = auth \<rparr>"

definition routes :: "route list" where
  "routes =
     [ api POST False [Lit (js ''login'')],
       api POST False [Lit (js ''signup'')],
       api POST False [Lit (js ''verify-email'')],
       api POST False [Lit (js ''logout'')],
       api GET False [Lit (js ''auth-status'')],
       api GET True [Lit (js ''event-categories'')],
       api GET True [Lit (js ''event-category-details''), Param],
       api GET True [Lit (js ''event-type-stats'')],
       api GET True [Lit (js ''event-type-details''), Param],
       api GET True [Lit (js ''categories'')],
       api GET False [Lit (js ''category''), Param],
       api GET False [Lit (js ''cache-event-category-details''), Param],
       api POST False [Lit (js ''refresh-cache'')],
       api GET True [Lit (js ''critical-events-count'')],
       api GET False [Lit (js ''critical-events-analysis-cached'')],
       api POST True [Lit (js ''critical-events-analysis-refresh'')],
       api GET False [Lit (js ''critical-events-analysis-cached-60'')],
       api POST True [Lit (js ''critical-events-analysis-refresh-60'')],
       api GET False [Lit (js ''critical-events-analysis-cached-pastdue'')],
       api POST True [Lit (js ''critical-events-analysis-refresh-pastdue'')],
       api GET False [Lit (js ''cached-prompts'')],
       api GET False [Lit (js ''get-last-response'')],
       api POST True [Lit (js ''agent-analysis-stream'')],
       api POST True [Lit (js ''agent-analysis'')],
       api GET True [Lit (js ''drill-down-details'')],
       api GET True [Lit (js ''debug-s3-open'')],
       \<lparr> r_method = GET, r_path = Exact [Lit (js ''login'')], r_requireAuth = False \<rparr>,
       \<lparr> r_method = GET, r_path = Exact [Lit (js ''signup'')], r_requireAuth = False \<rparr>,
       \<lparr> r_method = GET, r_path = Exact [], r_requireAuth = False \<rparr>,
       \<lparr> r_method = GET, r_path = Below [js ''static''], r_requireAuth = False \<rparr>,
       \<lparr> r_method = GET, r_path = Exact [Lit (js ''favicon.ico'')], r_requireAuth = False \<rparr>,
       \<lparr> r_method = GET, r_path = Exact [Lit (js ''manifest.json'')], r_requireAuth = False \<rparr>,
       \<lparr> r_method = GET, r_path = Exact [Lit (js ''robots.txt'')], r_requireAuth = False \<rparr>,
       \<lparr> r_method = GET, r_path = AnyPath, r_requireAuth = True \<rparr> ]"

fun seg_matches :: "seg \<Rightarrow> jsstring \<Rightarrow> bool" where
  "seg_matches (Lit l) s = (s = l)"
| "seg_matches Param s = (s \<noteq> [])"

fun path_matches :: "path_pattern \<Rightarrow> jsstring list \<Rightarrow> bool" where
  "path_matches (Exact segs) p = (length segs = length p \<and> list_all2 seg_matches segs p)"
| "path_matches (Below pre) p = prefix pre p"
| "path_matches AnyPath p = True"

record request =
  req_method :: http_method
  req_path :: "jsstring list"
  session_user :: bool

text \<open>
  What becomes of a request: the first route that matches its method and path takes it;
  \<^verbatim>\<open>requireAuth\<close> answers 401 when the session has no user, and the handler of the route
  runs otherwise.
\<close>

datatype outcome =
    Unauthorized401
  | Runs route
  | NotFound404

definition requireAuth :: "request \<Rightarrow> bool" where
  "requireAuth req = session_user req"

fun dispatch_in :: "route list \<Rightarrow> request \<Rightarrow> outcome" where
  "dispatch_in [] req = NotFound404"
| "dispatch_in (r # rs) req =
     (if r_method r = req_method req \<and> path_matches (r_path r) (req_path req)
      then (if r_requireAuth r \<and> \<not> requireAuth req then Unauthorized401 else Runs r)
      else dispatch_in rs req)"

definition dispatch :: "request \<Rightarrow> outcome" where
  "dispatch req = dispatch_in routes req"


section \<open>Properties of prompt validation\<close>

lemma trim_subset: "set (trim s) \<subseteq> set s"
proof -
  have "set (trim s) = set (dropWhile is_space (rev (dropWhile is_space s)))"
    by (simp add: trim_def)
  also have "\<dots> \<subseteq> set (rev (dropWhile is_space s))"
    by (rule set_dropWhileD [THEN subsetI])
  also have "\<dots> \<subseteq> set s"
    using set_dropWhileD by fastforce
  finally show ?thesis .
qed

lemma trim_length: "length (trim s) \<le> length s"
proof -
  have "length (trim s) = length (dropWhile is_space (rev (dropWhile is_space s)))"
    by (simp add: trim_def)
  also have "\<dots> \<le> length (rev (dropWhile is_space s))"
    by (rule length_dropWhile_le)
  also have "\<dots> \<le> length s"
    by (simp add: length_dropWhile_le)
  finally show ?thesis .
qed

lemma trim_hd: "trim s \<noteq> [] \<Longrightarrow> \<not> is_space (hd (trim s))"
proof -
  assume ne: "trim s \<noteq> []"
  define t where "t = dropWhile is_space s"
  define u where "u = dropWhile is_space (rev t)"
  have tr: "trim s = rev u" by (simp add: trim_def t_def u_def)
  with ne have une: "u \<noteq> []" by simp
  then have "rev t \<noteq> []" by (auto simp: u_def)
  then have tne: "t \<noteq> []" by simp
  then have h: "\<not> is_space (hd t)" unfolding t_def by (rule hd_dropWhile)
  obtain pre where pre: "rev t = pre @ u"
    unfolding u_def by (metis takeWhile_dropWhile_id)
  then have "t = rev u @ rev pre" by (metis rev_append rev_rev_ident)
  with une have "hd t = hd (rev u)" by simp
  with h tr show ?thesis by simp
qed

lemma trim_last: "trim s \<noteq> [] \<Longrightarrow> \<not> is_space (last (trim s))"
proof -
  assume ne: "trim s \<noteq> []"
  define u where "u = dropWhile is_space (rev (dropWhile is_space s))"
  have tr: "trim s = rev u" by (simp add: trim_def u_def)
  with ne have une: "u \<noteq> []" by simp
  then have "\<not> is_space (hd u)" unfolding u_def by (rule hd_dropWhile)
  moreover have "last (rev u) = hd u" using une by (simp add: last_rev)
  ultimately show ?thesis using tr by simp
qed

lemma sanitize_props:
  "60 \<notin> set (sanitize p)" "62 \<notin> set (sanitize p)"
  "\<forall>c \<in> set (sanitize p). \<not> is_control c"
  "length (sanitize p) \<le> length p"
  "sanitize p \<noteq> [] \<longrightarrow> \<not> is_space (hd (sanitize p)) \<and> \<not> is_space (last (sanitize p))"
proof -
  let ?f = "filter (\<lambda>c. \<not> is_control c) (filter (\<lambda>c. c \<noteq> 60 \<and> c \<noteq> 62) p)"
  have sub: "set (sanitize p) \<subseteq> set ?f"
    unfolding sanitize_def by (rule trim_subset)
  show "60 \<notin> set (sanitize p)" using sub by auto
  show "62 \<notin> set (sanitize p)" using sub by auto
  show "\<forall>c \<in> set (sanitize p). \<not> is_control c" using sub by auto
  have "length (sanitize p) \<le> length ?f"
    unfolding sanitize_def by (rule trim_length)
  also have "\<dots> \<le> length p"
    by (meson length_filter_le order_trans)
  finally show "length (sanitize p) \<le> length p" .
  show "sanitize p \<noteq> [] \<longrightarrow> \<not> is_space (hd (sanitize p)) \<and> \<not> is_space (last (sanitize p))"
    unfolding sanitize_def using trim_hd trim_last by blast
qed

lemma valid_is_sanitized:
  assumes "validateAndSanitizePrompt v = Valid s"
  obtains p where "v = JStr p" "s = sanitize p" "length p \<le> MAX_PROMPT_LENGTH"
  using assms by (cases v) (auto split: if_splits)

text \<open>
  Claim C10. Whenever \<open>validateAndSanitizePrompt\<close> answers \<open>valid: true\<close>, the sanitized
  string has no \<^verbatim>\<open><\<close> (60) and no \<^verbatim>\<open>>\<close> (62), no control character (0--31, 127), no
  white space at either end, and at most 5000 code units; and a handler that spawns the
  script passes exactly the script name and this sanitized string.
\<close>

theorem C10_sanitized_prompt:
  "validateAndSanitizePrompt v = Valid s \<Longrightarrow>
     60 \<notin> set s \<and> 62 \<notin> set s \<and> (\<forall>c \<in> set s. \<not> (c \<le> 31 \<or> c = 127))
     \<and> (s \<noteq> [] \<longrightarrow> \<not> is_space (hd s) \<and> \<not> is_space (last s))
     \<and> length s \<le> 5000
     \<and> spawn_argv v = Inr [js ''test_agentic_analysis.py'', s]"
proof -
  assume ok: "validateAndSanitizePrompt v = Valid s"
  then obtain p where p: "v = JStr p" "s = sanitize p" "length p \<le> MAX_PROMPT_LENGTH"
    by (rule valid_is_sanitized)
  have "length s \<le> 5000"
    using sanitize_props(4) [of p] p by (simp add: MAX_PROMPT_LENGTH_def)
  moreover have "\<forall>c \<in> set s. \<not> (c \<le> 31 \<or> c = 127)"
    using sanitize_props(3) [of p] p by (simp add: is_control_def)
  moreover have "spawn_argv v = Inr [js ''test_agentic_analysis.py'', s]"
    using ok by (simp add: spawn_argv_def)
  ultimately show ?thesis
    using sanitize_props(1,2,5) [of p] p by simp
qed

theorem C10_sanitized_prompt_witness:
  "validateAndSanitizePrompt (JStr (js ''a <b> c '')) = Valid (js ''a b c'')
   \<and> 60 \<notin> set (js ''a b c'') \<and> 62 \<notin> set (js ''a b c'')
   \<and> list_all (\<lambda>c. \<not> (c \<le> 31 \<or> c = 127)) (js ''a b c'')
   \<and> \<not> is_space (hd (js ''a b c'')) \<and> \<not> is_space (last (js ''a b c''))
   \<and> length (js ''a b c'') \<le> 5000
   \<and> spawn_argv (JStr (js ''a <b> c '')) = Inr [js ''test_agentic_analysis.py'', js ''a b c'']"
proof -
  have h: "validateAndSanitizePrompt (JStr (js ''a <b> c '')) = Valid (js ''a b c'')"
    by (simp add: js_def trim_def is_space_def MAX_PROMPT_LENGTH_def MIN_PROMPT_LENGTH_def
        SAFE_PROMPT_REGEX_def safe_char_def DANGEROUS_PATTERNS_def ci_prefix_def upper_def
        sanitize_def is_control_def)
  have ne: "js ''a b c'' \<noteq> []" by (simp add: js_def)
  show ?thesis using C10_sanitized_prompt [OF h] h ne unfolding list_all_iff by blast
qed

section \<open>Properties of the classifier\<close>

lemma test_empty:
  "p \<in> set (patterns category) \<Longrightarrow> \<not> test p []"
  by (cases category) (auto simp: js_def)

lemma matches_any_iff:
  "matches_any ps ev \<longleftrightarrow> (\<exists>p \<in> set ps. test p (or_empty (event_type ev)))"
  by (simp add: matches_any_def list_ex_iff)

lemma no_event_type_no_match:
  assumes "event_type ev = None \<or> event_type ev = Some []"
  shows "\<not> matches_any (patterns category) ev"
proof -
  from assms have "or_empty (event_type ev) = []" by auto
  then show ?thesis
    using test_empty by (auto simp: matches_any_iff)
qed

text \<open>
  Claim C7. Membership of a record in a bucket is the disjunction over the bucket's
  patterns of "the pattern matches the record's \<open>event_type\<close>, the empty string when the
  field is missing"; so it is the same for every permutation of a pattern list, and so are
  the counts; a record whose \<open>event_type\<close> is missing or empty is in no bucket, and adding
  it to the scanned events changes no bucket's statistics.
\<close>

theorem C7_bucket_membership:
  "(in_bucket category ev \<longleftrightarrow> (\<exists>p \<in> set (patterns category). test p (or_empty (event_type ev))))
   \<and> (mset qs = mset ps \<longrightarrow>
        matches_any qs ev = matches_any ps ev \<and> stats_for qs evs = stats_for ps evs)
   \<and> (event_type ev = None \<or> event_type ev = Some [] \<longrightarrow>
        \<not> in_bucket category ev
        \<and> generateEventTypeStatsData (ev # evs) category = generateEventTypeStatsData evs category)"
proof (intro conjI impI)
  show "in_bucket category ev \<longleftrightarrow> (\<exists>p \<in> set (patterns category). test p (or_empty (event_type ev)))"
    by (simp add: in_bucket_def matches_any_iff)
next
  assume "mset qs = mset ps"
  then have "set qs = set ps" by (rule mset_eq_setD)
  then have m: "matches_any qs = matches_any ps"
    by (auto simp: matches_any_iff fun_eq_iff)
  show "matches_any qs ev = matches_any ps ev" by (simp add: m)
  show "stats_for qs evs = stats_for ps evs" by (simp add: stats_for_def m)
next
  assume e: "event_type ev = None \<or> event_type ev = Some []"
  then show "\<not> in_bucket category ev"
    unfolding in_bucket_def by (rule no_event_type_no_match)
  from e have "\<not> matches_any (patterns category) ev"
    by (rule no_event_type_no_match)
  then show "generateEventTypeStatsData (ev # evs) category = generateEventTypeStatsData evs category"
    by (simp add: generateEventTypeStatsData_def stats_for_def)
qed

section \<open>Properties of the paginated scan\<close>

lemma scan_loop_serves:
  "serves scan db k pages \<Longrightarrow>
     \<exists>db'. scan_loop scan db acc k = Some (Inr (acc @ concat (map (\<lambda>p. or_nil (Items p)) pages), db'))"
proof (induction pages arbitrary: db k acc)
  case Nil
  then show ?case by simp
next
  case (Cons p ps)
  from Cons.prems obtain db1 where s: "scan db k = Inr (p, db1)"
    and rest: "if ps = [] then LastEvaluatedKey p = None
               else LastEvaluatedKey p \<noteq> None \<and> serves scan db1 (LastEvaluatedKey p) ps"
    by (auto split: sum.splits)
  show ?case
  proof (cases "ps = []")
    case True
    with rest have "LastEvaluatedKey p = None" by simp
    with s True show ?thesis
      by (subst scan_loop.simps) simp
  next
    case False
    with rest obtain key where key: "LastEvaluatedKey p = Some key"
      and sv: "serves scan db1 (Some key) ps" by auto
    from Cons.IH [OF sv, of "acc @ or_nil (Items p)"] obtain db' where
      "scan_loop scan db1 (acc @ or_nil (Items p)) (Some key)
         = Some (Inr ((acc @ or_nil (Items p)) @ concat (map (\<lambda>p. or_nil (Items p)) ps), db'))"
      by blast
    with s key show ?thesis
      by (subst scan_loop.simps) simp
  qed
qed

text \<open>
  Claim C8. When the collaborator answers with a sequence of pages of which every one but
  the last carries a continuation key, \<open>scanAllPages\<close> returns (it does not loop, and it
  does not fail), and what it returns is the concatenation of the items of all pages, in
  page order; the caller gets this one list and nothing before it.
\<close>

theorem C8_scan_all_pages:
  "serves scan db None pages \<Longrightarrow>
     \<exists>db'. scanAllPages scan db = Some (Inr (concat (map (\<lambda>p. or_nil (Items p)) pages), db'))"
  using scan_loop_serves [of scan db None pages "[]"] by (simp add: scanAllPages_def)

theorem C8_scan_all_pages_witness:
  "serves paged
     [\<lparr>Items = Some [1, 2 :: nat], LastEvaluatedKey = Some (10 :: nat)\<rparr>,
      \<lparr>Items = Some [3], LastEvaluatedKey = Some 20\<rparr>,
      \<lparr>Items = Some [4, 5], LastEvaluatedKey = None\<rparr>] None
     [\<lparr>Items = Some [1, 2], LastEvaluatedKey = Some 10\<rparr>,
      \<lparr>Items = Some [3], LastEvaluatedKey = Some 20\<rparr>,
      \<lparr>Items = Some [4, 5], LastEvaluatedKey = None\<rparr>]
   \<and> (\<exists>db'. scanAllPages paged
        [\<lparr>Items = Some [1, 2 :: nat], LastEvaluatedKey = Some (10 :: nat)\<rparr>,
         \<lparr>Items = Some [3], LastEvaluatedKey = Some 20\<rparr>,
         \<lparr>Items = Some [4, 5], LastEvaluatedKey = None\<rparr>]
        = Some (Inr ([1, 2, 3, 4, 5], db')))"
proof -
  let ?pages = "[\<lparr>Items = Some [1, 2 :: nat], LastEvaluatedKey = Some (10 :: nat)\<rparr>,
      \<lparr>Items = Some [3], LastEvaluatedKey = Some 20\<rparr>,
      \<lparr>Items = Some [4, 5], LastEvaluatedKey = None\<rparr>]"
  have h: "serves paged ?pages None ?pages" by simp
  show ?thesis using C8_scan_all_pages [OF h] h by simp
qed

theorem C7_bucket_membership_witness:
  "mset [AtEnd (js ''_B''), Anywhere (js ''_A'')] = mset [Anywhere (js ''_A''), AtEnd (js ''_B'')]
   \<and> matches_any [AtEnd (js ''_B''), Anywhere (js ''_A'')] \<lparr>event_type = None, service = Some (js ''EC2'')\<rparr>
       = matches_any [Anywhere (js ''_A''), AtEnd (js ''_B'')] \<lparr>event_type = None, service = Some (js ''EC2'')\<rparr>
   \<and> stats_for [AtEnd (js ''_B''), Anywhere (js ''_A'')] [\<lparr>event_type = Some (js ''X_A_B''), service = Some (js ''S3'')\<rparr>]
       = stats_for [Anywhere (js ''_A''), AtEnd (js ''_B'')] [\<lparr>event_type = Some (js ''X_A_B''), service = Some (js ''S3'')\<rparr>]
   \<and> \<not> in_bucket securityCompliance \<lparr>event_type = None, service = Some (js ''EC2'')\<rparr>
   \<and> generateEventTypeStatsData
         [\<lparr>event_type = None, service = Some (js ''EC2'')\<rparr>,
          \<lparr>event_type = Some (js ''X_A_B''), service = Some (js ''S3'')\<rparr>] securityCompliance
       = generateEventTypeStatsData
         [\<lparr>event_type = Some (js ''X_A_B''), service = Some (js ''S3'')\<rparr>] securityCompliance"
proof -
  have m: "mset [AtEnd (js ''_B''), Anywhere (js ''_A'')] = mset [Anywhere (js ''_A''), AtEnd (js ''_B'')]"
    by simp
  have e: "event_type \<lparr>event_type = None, service = Some (js ''EC2'')\<rparr> = None"
    by simp
  show ?thesis
    using C7_bucket_membership
      [of securityCompliance "\<lparr>event_type = None, service = Some (js ''EC2'')\<rparr>"
          "[AtEnd (js ''_B''), Anywhere (js ''_A'')]" "[Anywhere (js ''_A''), AtEnd (js ''_B'')]"
          "[\<lparr>event_type = Some (js ''X_A_B''), service = Some (js ''S3'')\<rparr>]"]
      m e
    by blast
qed


section \<open>Properties of the cache of critical-events analyses\<close>

lemma or_one_cases: "or_one t = (case t of None \<Rightarrow> 1 | Some h \<Rightarrow> if h = 0 then 1 else h)"
  by (cases t) simp_all




text \<open>
  Claim C4, as the code has it. A refresh that ends with exit code 0 before any response
  was sent writes an entry whose \<open>ttl_hours\<close> is that of the entry it replaces when that
  one is readable and its \<open>ttl_hours\<close> is there and not 0; it is 1 when there was no file,
  when the file could not be read, and when its \<open>ttl_hours\<close> was missing or 0.
\<close>

theorem C4_refresh_ttl:
  "\<not> responseSent st \<Longrightarrow>
   files (refresh_step k s now (Close (Some 0)) st) (cacheFile k) =
     Some (Entry \<lparr> timestamp = Some now,
                    ttl_hours = Some (case files st (cacheFile k) of
                                        Some (Entry prior) \<Rightarrow>
                                          (case ttl_hours prior of
                                             Some h \<Rightarrow> if h = 0 then 1 else h
                                           | None \<Rightarrow> 1)
                                      | Some Corrupt \<Rightarrow> 1
                                      | None \<Rightarrow> 1),
                    analysis = Some (extract_refresh (outputText st)),
                    prompt = Some s \<rparr>)"
  by (auto simp: refresh_success_def existingTtl_def Let_def or_one_cases
      split: option.splits cache_file.splits)

lemma extract_refresh_empty: "extract_refresh [] = []"
  by (simp add: extract_refresh_def codeBlockMatch_def htmlMatch_def js_def)

theorem C4_refresh_ttl_witness:
  "\<not> responseSent (refresh_start
        [cacheFile Next30 \<mapsto>
           Entry \<lparr> timestamp = Some 0, ttl_hours = Some 6, analysis = Some (js ''old''),
                   prompt = None \<rparr>])
   \<and> files (refresh_step Next30 (js ''q'') 5000 (Close (Some 0))
        (refresh_start
          [cacheFile Next30 \<mapsto>
             Entry \<lparr> timestamp = Some 0, ttl_hours = Some 6, analysis = Some (js ''old''),
                     prompt = None \<rparr>])) (cacheFile Next30)
     = Some (Entry \<lparr> timestamp = Some 5000, ttl_hours = Some 6, analysis = Some [],
                      prompt = Some (js ''q'') \<rparr>)"
proof -
  let ?st = "refresh_start
        [cacheFile Next30 \<mapsto>
           Entry \<lparr> timestamp = Some 0, ttl_hours = Some 6, analysis = Some (js ''old''),
                   prompt = None \<rparr>]"
  have h: "\<not> responseSent ?st" by (simp add: refresh_start_def)
  have o: "outputText ?st = []" by (simp add: refresh_start_def)
  have f: "files ?st (cacheFile Next30)
     = Some (Entry \<lparr> timestamp = Some 0, ttl_hours = Some 6, analysis = Some (js ''old''),
                   prompt = None \<rparr>)" by (simp add: refresh_start_def)
  show ?thesis
    using C4_refresh_ttl [OF h, of Next30 "js ''q''" 5000] h
    unfolding o f extract_refresh_empty by simp
qed

text \<open>
  Claim C4 as it is written: a readable prior entry always hands its \<open>ttl_hours\<close> on.
  A prior entry with \<open>ttl_hours = 0\<close> is readable, and the entry that replaces it has
  \<open>ttl_hours = 1\<close>.
\<close>

theorem C4_zero_ttl_counterexample:
  "map_option (\<lambda>f. case f of Entry d \<Rightarrow> ttl_hours d | Corrupt \<Rightarrow> None)
     (files (refresh_step Next30 (js ''q'') 5000 (Close (Some 0))
        (refresh_start [cacheFile Next30 \<mapsto>
           Entry \<lparr> timestamp = Some 0, ttl_hours = Some 0, analysis = Some (js ''old''),
                   prompt = None \<rparr>])) (cacheFile Next30))
     = Some (Some 1)"
  by (simp add: refresh_start_def refresh_success_def existingTtl_def Let_def)

section \<open>Properties of the delivery of results\<close>










section \<open>Properties of the drill-down query builder\<close>

text \<open>
  Claim C1 at the filter \<^verbatim>\<open>{"account":"undefined"}\<close>. The string \<^verbatim>\<open>"undefined"\<close> is truthy, so
  \<open>hasValidFilter\<close> holds and the request is not rejected; no plain filter accepts the
  value, so no clause is built, and the handler goes on to scan the whole table with no
  filter expression.
\<close>

theorem C1_undefined_filter_scans_unfiltered:
  "drill_down_details numStr (Parsed (JObj [(js ''account'', JStr (js ''undefined''))]))
     = RunScan \<lparr> TableName = js ''chaplin-health-events'', FilterExpression = None,
                 ExpressionAttributeValues = None, ExpressionAttributeNames = None \<rparr>"
  by (simp add: drill_down_details_def hasValidFilter_def validFilters_def build_filters_def
      aliased_filter_def direct_filter_def usable_def eventCategory_block_def to_scan_params_def
      js_def)

text \<open>What the handler does reject: a filter object none of whose recognised keys is truthy.\<close>

lemma no_truthy_key_rejected:
  "pf \<noteq> JNull \<Longrightarrow> pf \<noteq> JUndefined \<Longrightarrow> \<forall>key \<in> set validFilters. \<not> truthy (get_prop pf key) \<Longrightarrow>
     drill_down_details numStr (Parsed pf) = BadRequest (js ''No valid filters provided'')"
  by (simp add: drill_down_details_def hasValidFilter_def list_ex_iff)

text \<open>
  The sentinel \<^verbatim>\<open>PLANNED_LIFECYCLE_EVENT\<close> has 23 code units and two underscores, so the
  first test of the block takes it: the branch that synthesizes
  \<^verbatim>\<open>AWS_<service>_PLANNED_LIFECYCLE_EVENT\<close> is never reached.
\<close>

lemma sentinel_is_event_type:
  "get_prop pf (js ''eventCategory'') = JStr (js ''PLANNED_LIFECYCLE_EVENT'') \<Longrightarrow>
     eventCategory_block numStr pf b
       = Some (push_clause (js ''event_type = :event_type'') (js '':event_type'')
                 (JStr (js ''PLANNED_LIFECYCLE_EVENT'')) b)"
  by (simp add: eventCategory_block_def js_def)



section \<open>Properties of the routes\<close>

text \<open>
  Claim C9 at the bulk refresh of the caches. The route \<^verbatim>\<open>POST /api/refresh-cache\<close> is
  registered without \<^verbatim>\<open>requireAuth\<close>: a request with no session user is not answered with
  401, its handler runs.
\<close>

theorem C9_refresh_cache_unauthenticated:
  "dispatch \<lparr> req_method = POST, req_path = [js ''api'', js ''refresh-cache''], session_user = False \<rparr>
     = Runs (api POST False [Lit (js ''refresh-cache'')])"
  by (simp add: dispatch_def routes_def api_def js_def)

text \<open>
  Where \<^verbatim>\<open>requireAuth\<close> stands before a handler, the handler runs only for a request with
  a session user; the guarded siblings of the route above answer 401.
\<close>

lemma guarded_route_needs_user:
  "dispatch_in rs req = Runs r \<Longrightarrow> r_requireAuth r \<Longrightarrow> session_user req"
  by (induction rs) (auto simp: requireAuth_def split: if_splits)

lemma protected_routes_reject:
  "dispatch \<lparr> req_method = POST, req_path = [js ''api'', js ''critical-events-analysis-refresh''],
              session_user = False \<rparr> = Unauthorized401"
  "dispatch \<lparr> req_method = POST, req_path = [js ''api'', js ''agent-analysis-stream''],
              session_user = False \<rparr> = Unauthorized401"
  "dispatch \<lparr> req_method = GET, req_path = [js ''api'', js ''drill-down-details''],
              session_user = False \<rparr> = Unauthorized401"
  by (simp_all add: dispatch_def routes_def api_def js_def requireAuth_def)


section \<open>Properties of the extraction of the HTML fragment\<close>





lemma fence_not_space: "js ''```'' \<noteq> []" "\<not> is_space (hd (js ''```''))"
  by (simp_all add: js_def is_space_def)























end
